theory Spec2Isabelle
  imports Main "HOL-Library.Word"
begin

section \<open>The token provider of aad-auth-proxy\<close>

text \<open>
  A shallow embedding of \<^verbatim>\<open>src/token_provider/token_provider.go\<close>: the refresh-time
  calculator \<^verbatim>\<open>getRefreshDuration\<close>, the refresh \<^verbatim>\<open>refreshAADToken\<close>, the background
  loop \<^verbatim>\<open>periodicallyRefreshClientToken\<close>, the accessor \<^verbatim>\<open>GetAccessToken\<close> and the
  constructor \<^verbatim>\<open>NewTokenProvider\<close>.

  The provider is a Go struct behind a pointer; every method that writes a field is modelled as a
  function that takes the struct and returns the updated one. What the Go code takes from its
  surroundings (the wall clock, the answers of the credential client, the outcome of creating the
  credential, the wake-ups of the \<^verbatim>\<open>select\<close>) is an explicit argument. Tracing spans, metric
  counters and log lines write to collaborators only and are left out.
\<close>

subsection \<open>Time values\<close>

text \<open>
  A \<^verbatim>\<open>time.Time\<close> is an instant, counted here in nanoseconds from a fixed epoch. Go keeps
  64-bit seconds and a nanosecond part, a range of some hundred billion years, which is taken as
  unbounded. \<^verbatim>\<open>UTC()\<close> changes the location of a \<^verbatim>\<open>Time\<close> and not its instant, so it is the
  identity on this type. The wall-clock and the monotonic reading of a \<^verbatim>\<open>Time\<close> are taken to
  agree.

  A \<^verbatim>\<open>time.Duration\<close> is an \<^verbatim>\<open>int64\<close> count of nanoseconds. It is modelled as an
  \<open>int\<close> that stays inside the 64-bit range, with the wrap-around of Go's multiplication and the
  saturation of \<^verbatim>\<open>Time.Sub\<close> written out.
\<close>

type_synonym Time = int
type_synonym Duration = int

definition minDuration :: Duration where
  "minDuration = - (2 ^ 63)"

definition maxDuration :: Duration where
  "maxDuration = 2 ^ 63 - 1"

definition Nanosecond :: Duration where
  "Nanosecond = 1"

definition Second :: Duration where
  "Second = 1000000000 * Nanosecond"

definition Minute :: Duration where
  "Minute = 60 * Second"

text \<open>The value of an \<^verbatim>\<open>int64\<close> after an operation whose exact result is \<open>x\<close>.\<close>

definition wrap_int64 :: "int \<Rightarrow> int" where
  "wrap_int64 x = (x + 2 ^ 63) mod 2 ^ 64 - 2 ^ 63"

text \<open>Go's \<^verbatim>\<open>*\<close> on \<^verbatim>\<open>Duration\<close>: the product modulo \<open>2 ^ 64\<close>, read as signed.\<close>

definition Duration_mul :: "Duration \<Rightarrow> Duration \<Rightarrow> Duration" where
  "Duration_mul a b = wrap_int64 (a * b)"

text \<open>
  Go's \<^verbatim>\<open>/\<close> on integers truncates towards zero, where \<open>div\<close> rounds down. The only
  divisor in the program is the constant 100, so there is no division by zero and no overflow.
\<close>

definition Duration_quo :: "Duration \<Rightarrow> Duration \<Rightarrow> Duration" where
  "Duration_quo a b = sgn a * sgn b * (\<bar>a\<bar> div \<bar>b\<bar>)"

text \<open>\<^verbatim>\<open>t.Add(d)\<close>.\<close>

definition Time_Add :: "Time \<Rightarrow> Duration \<Rightarrow> Time" where
  "Time_Add t d = t + d"

text \<open>
  \<^verbatim>\<open>t.Sub(u)\<close>: the difference \<open>t - u\<close>, and the largest or smallest \<^verbatim>\<open>Duration\<close> when
  the difference does not fit.
\<close>

definition Time_Sub :: "Time \<Rightarrow> Time \<Rightarrow> Duration" where
  "Time_Sub t u =
     (if t - u < minDuration then minDuration
      else if maxDuration < t - u then maxDuration
      else t - u)"

text \<open>\<^verbatim>\<open>t.Before(u)\<close>.\<close>

definition Time_Before :: "Time \<Rightarrow> Time \<Rightarrow> bool" where
  "Time_Before t u = (t < u)"

text \<open>
  The wall clock. A call of \<^verbatim>\<open>time.Now()\<close> takes the next reading; \<open>c i\<close> is the reading
  that the call after \<open>i\<close> further calls will get. A clock that stands still during a computation
  is \<open>frozen now\<close>.
\<close>

type_synonym clock = "nat \<Rightarrow> Time"

definition time_Now :: "clock \<Rightarrow> Time \<times> clock" where
  "time_Now c = (c 0, \<lambda>i. c (Suc i))"

definition frozen :: "Time \<Rightarrow> clock" where
  "frozen now = (\<lambda>i. now)"

subsection \<open>Constants of the package \<^verbatim>\<open>constants\<close>\<close>

text \<open>
  Modelled from the spec: \<^verbatim>\<open>constants.TIME_1_MINUTES\<close> is declared in the package
  \<^verbatim>\<open>aad-auth-proxy/constants\<close>, which is not among the sources. The specification gives
  its value: the fast-retry fallback is ``now + 1 minute''.
\<close>

definition TIME_1_MINUTES :: Duration where
  "TIME_1_MINUTES = 1 * Minute"

text \<open>
  Modelled from the spec: \<^verbatim>\<open>constants.TIME_5_MINUTES\<close> is declared in the same package. The
  specification gives its value: after a failed background refresh, \<open>refreshDuration\<close> is set to
  ``a fixed fallback value (5 minutes)''.
\<close>

definition TIME_5_MINUTES :: Duration where
  "TIME_5_MINUTES = 5 * Minute"

subsection \<open>Data\<close>

text \<open>A Go \<^verbatim>\<open>error\<close> value, with the text that \<^verbatim>\<open>Error()\<close> returns.\<close>

datatype error = Error string

fun Error_text :: "error \<Rightarrow> string" where
  "Error_text (Error msg) = msg"

text \<open>\<^verbatim>\<open>errors.New\<close>.\<close>

definition errors_New :: "string \<Rightarrow> error" where
  "errors_New msg = Error msg"

text \<open>\<^verbatim>\<open>azcore.AccessToken\<close> and \<^verbatim>\<open>policy.TokenRequestOptions\<close>, with the fields in use.\<close>

record AccessToken =
  Token :: string
  ExpiresOn :: Time

record TokenRequestOptions =
  Scopes :: "string list"

text \<open>
  The context of the provider is always \<^verbatim>\<open>context.Background()\<close>, and its credential the one
  that \<^verbatim>\<open>azidentity.NewDefaultAzureCredential\<close> made.
\<close>

datatype Context = Background

datatype TokenCredential = DefaultAzureCredential

record tokenProvider =
  token :: string
  ctx :: Context
  lastError :: "error option"
  userConfiguredDurationPercentage :: "8 word"
  refreshDuration :: Duration
  credentialClient :: TokenCredential
  options :: TokenRequestOptions

subsection \<open>The refresh-time calculator\<close>

text \<open>
  \<^verbatim>\<open>getRefreshDuration\<close> reads the clock three times, and a fourth time in the two branches
  that fall back to one minute. The subtraction \<^verbatim>\<open>100 - userConfiguredDurationPercentage\<close>
  is on \<^verbatim>\<open>uint8\<close>; the product with the remaining lifetime is on \<^verbatim>\<open>int64\<close>.
\<close>

definition getRefreshDuration :: "AccessToken \<Rightarrow> tokenProvider \<Rightarrow> clock \<Rightarrow> Time \<times> clock" where
  "getRefreshDuration accessToken tokenProvider c0 =
     (let tokenExpiryTimestamp = ExpiresOn accessToken;
          (now1, c1) = time_Now c0;
          (now2, c2) = time_Now c1;
          userConfiguredTimeFromNow =
            Time_Add now1
              (Duration_quo
                 (Duration_mul (uint (100 - userConfiguredDurationPercentage tokenProvider))
                    (Time_Sub (ExpiresOn accessToken) now2))
                 100);
          (now3, c3) = time_Now c2;
          thresholdTimestamp = Time_Add now3 (- 10 * Second)
      in if Time_Before userConfiguredTimeFromNow thresholdTimestamp then
           (let (now4, c4) = time_Now c3 in (Time_Add now4 TIME_1_MINUTES, c4))
         else if Time_Before userConfiguredTimeFromNow tokenExpiryTimestamp then
           (userConfiguredTimeFromNow, c3)
         else
           (let (now4, c4) = time_Now c3 in (Time_Add now4 TIME_1_MINUTES, c4)))"

text \<open>\<^verbatim>\<open>updateRefreshDuration\<close> stores the distance from one more clock reading. It always returns \<^verbatim>\<open>nil\<close>.\<close>

definition updateRefreshDuration :: "AccessToken \<Rightarrow> tokenProvider \<Rightarrow> clock \<Rightarrow> tokenProvider \<times> clock" where
  "updateRefreshDuration accessToken tokenProvider c0 =
     (let (earlistTime, c1) = getRefreshDuration accessToken tokenProvider c0;
          (now, c2) = time_Now c1
      in (tokenProvider\<lparr>refreshDuration := Time_Sub earlistTime now\<rparr>, c2))"

subsection \<open>Refreshing and reading the token\<close>

text \<open>
  \<^verbatim>\<open>setToken\<close> stores the string in an \<^verbatim>\<open>atomic.Value\<close> that is local to the call, loads it
  back and assigns it to the field.
\<close>

definition setToken :: "string \<Rightarrow> tokenProvider \<Rightarrow> tokenProvider" where
  "setToken tok tokenProvider = (let V = tok in tokenProvider\<lparr>token := V\<rparr>)"

text \<open>
  What \<^verbatim>\<open>credentialClient.GetToken\<close> answers at one call, as a function of the options it is
  called with: an error or an access token.
\<close>

type_synonym GetToken = "TokenRequestOptions \<Rightarrow> error + AccessToken"

text \<open>
  \<^verbatim>\<open>refreshAADToken\<close> returns the error (\<open>None\<close> is \<^verbatim>\<open>nil\<close>) and the updated provider.
  On success the span attributes read the clock once more.
\<close>

definition refreshAADToken :: "GetToken \<Rightarrow> tokenProvider \<Rightarrow> clock \<Rightarrow> error option \<times> tokenProvider \<times> clock" where
  "refreshAADToken g tokenProvider c0 =
     (case g (options tokenProvider) of
        Inl err \<Rightarrow> (Some err, tokenProvider\<lparr>lastError := Some err\<rparr>, c0)
      | Inr accessToken \<Rightarrow>
          (let tp1 = tokenProvider\<lparr>lastError := None\<rparr>;
               tp2 = setToken (Token accessToken) tp1;
               (tp3, c1) = updateRefreshDuration accessToken tp2 c0;
               (now, c2) = time_Now c1
           in (None, tp3, c2)))"

definition GetAccessToken :: "tokenProvider \<Rightarrow> string \<times> error option" where
  "GetAccessToken tokenProvider = (token tokenProvider, lastError tokenProvider)"

subsection \<open>The background loop\<close>

text \<open>
  Each round of the loop blocks in a \<^verbatim>\<open>select\<close> until the context is done or the timer of
  \<^verbatim>\<open>time.After(refreshDuration)\<close> fires. The wake-ups come from outside: \<open>ctx_Done\<close>, or
  \<open>time_After g c\<close> for a timer that fired when the credential client would answer \<open>g\<close> and the
  clock is \<open>c\<close>. The loop is run on a list of wake-ups; when the list ends with the loop still
  blocked, the result is \<open>Waiting\<close>. The third component counts the calls of
  \<^verbatim>\<open>refreshAADToken\<close> that the loop made.
\<close>

datatype wakeup = ctx_Done | time_After GetToken clock

datatype loop_result = Waiting | Returned "error option"

fun periodicallyRefreshClientToken :: "wakeup list \<Rightarrow> tokenProvider \<Rightarrow> loop_result \<times> tokenProvider \<times> nat" where
  "periodicallyRefreshClientToken [] tokenProvider = (Waiting, tokenProvider, 0)"
| "periodicallyRefreshClientToken (ctx_Done # ws) tokenProvider = (Returned None, tokenProvider, 0)"
| "periodicallyRefreshClientToken (time_After g c # ws) tokenProvider =
     (case refreshAADToken g tokenProvider c of
        (Some err, tp1, c1) \<Rightarrow>
          (Returned (Some (errors_New (''Failed to refresh token: '' @ Error_text err))),
           tp1\<lparr>refreshDuration := TIME_5_MINUTES\<rparr>, 1)
      | (None, tp1, c1) \<Rightarrow>
          (case periodicallyRefreshClientToken ws tp1 of
             (r, tp2, n) \<Rightarrow> (r, tp2, Suc n)))"

subsection \<open>Construction\<close>

text \<open>
  The configuration and the logger are interface values and may be \<^verbatim>\<open>nil\<close> (\<open>None\<close>). Of
  the configuration only \<^verbatim>\<open>GetAadTokenRefreshDurationInPercentage\<close> is called; the logger is
  handed to the loop. The audience is a Go \<^verbatim>\<open>string\<close>, which has no \<^verbatim>\<open>nil\<close>.

  \<^verbatim>\<open>NewTokenProvider\<close> also takes what \<^verbatim>\<open>azidentity.NewDefaultAzureCredential\<close> returns, the
  answer of the credential client to the first request, and the clock. It returns the error or
  the provider, and whether the \<^verbatim>\<open>go\<close> statement that starts the background loop was run.
\<close>

text \<open>
  Modelled from the spec: the interface \<^verbatim>\<open>utils.IConfiguration\<close> is declared outside the
  sources. The specification gives the refresh percentage as a \<^verbatim>\<open>uint8\<close> (0--100), the type of
  the field that the code assigns the result of the call to.
\<close>

record IConfiguration =
  GetAadTokenRefreshDurationInPercentage :: "8 word"

text \<open>
  Modelled from the spec: the interface \<^verbatim>\<open>contracts.ILogger\<close> is declared outside the sources.
  The specification has it as a capability for structured error logs; its calls change nothing in
  the provider.
\<close>

datatype ILogger = Logger

definition NewTokenProvider ::
  "string \<Rightarrow> IConfiguration option \<Rightarrow> ILogger option \<Rightarrow> error + TokenCredential \<Rightarrow> GetToken \<Rightarrow> clock
     \<Rightarrow> (error + tokenProvider) \<times> bool" where
  "NewTokenProvider audience config logger NewDefaultAzureCredential g c0 =
     (if config = None \<or> logger = None then
        (Inl (errors_New ''NewTokenProvider: Required arguments canot be nil''), False)
      else
        (let userConfiguredDurationPercentage' =
               (case config of Some cfg \<Rightarrow> GetAadTokenRefreshDurationInPercentage cfg | None \<Rightarrow> 0)
         in case NewDefaultAzureCredential of
              Inl err \<Rightarrow> (Inl err, False)
            | Inr cred \<Rightarrow>
                (let tokenProvider =
                       \<lparr>token = [],
                        ctx = Background,
                        lastError = None,
                        userConfiguredDurationPercentage = userConfiguredDurationPercentage',
                        refreshDuration = 0,
                        credentialClient = cred,
                        options = \<lparr>Scopes = [audience]\<rparr>\<rparr>
                 in case refreshAADToken g tokenProvider c0 of
                      (Some err, tp1, c1) \<Rightarrow>
                        (Inl (errors_New (''Failed to get access token: '' @ Error_text err)), False)
                    | (None, tp1, c1) \<Rightarrow> (Inr tp1, True))))"

subsection \<open>The calculator as the specification words it\<close>

text \<open>
  Section 4.1 of the specification, on exact integers: \<open>remaining = expiresAt - now\<close>,
  \<open>candidate = now + remaining * (100 - percentage) / 100\<close>, \<open>threshold = now - 10 seconds\<close>, and
  the three branches. The quotient is cut to whole nanoseconds towards zero.
\<close>

definition spec_candidate :: "Time \<Rightarrow> Time \<Rightarrow> int \<Rightarrow> Time" where
  "spec_candidate now expiresAt percentage =
     now + Duration_quo ((expiresAt - now) * (100 - percentage)) 100"

definition nextRefresh :: "Time \<Rightarrow> Time \<Rightarrow> int \<Rightarrow> Time" where
  "nextRefresh now expiresAt percentage =
     (let candidate = spec_candidate now expiresAt percentage;
          threshold = now - 10 * Second
      in if candidate < threshold then now + 1 * Minute
         else if candidate < expiresAt then candidate
         else now + 1 * Minute)"

subsection \<open>Values for the examples\<close>

text \<open>A credential client that answers every request with one token, and one that fails.\<close>

definition answer_token :: "AccessToken \<Rightarrow> GetToken" where
  "answer_token accessToken opts = Inr accessToken"

definition answer_error :: "error \<Rightarrow> GetToken" where
  "answer_error err opts = Inl err"

text \<open>A provider that holds the token \<open>tok\<close> and is configured with the percentage \<open>p\<close>.\<close>

definition provider_with :: "string \<Rightarrow> 8 word \<Rightarrow> tokenProvider" where
  "provider_with tok p =
     \<lparr>token = tok, ctx = Background, lastError = None, userConfiguredDurationPercentage = p,
      refreshDuration = 0, credentialClient = DefaultAzureCredential,
      options = \<lparr>Scopes = [''https://monitor.azure.com/.default'']\<rparr>\<rparr>"

text \<open>
  Clocks for the examples: \<open>ticking t0\<close> advances by one nanosecond at each reading, from
  \<open>t0\<close>; \<open>clock_of ts t\<close> gives the readings \<open>ts\<close> in turn and \<open>t\<close> ever after.
\<close>

definition ticking :: "Time \<Rightarrow> clock" where
  "ticking t0 = (\<lambda>i. t0 + int i)"

definition clock_of :: "Time list \<Rightarrow> Time \<Rightarrow> clock" where
  "clock_of ts t = (\<lambda>i. if i < length ts then ts ! i else t)"

section \<open>Properties\<close>

subsection \<open>What one refresh writes\<close>

lemma updateRefreshDuration_frame:
  "\<exists>d c'. updateRefreshDuration accessToken tp c = (tp\<lparr>refreshDuration := d\<rparr>, c')"
  by (auto simp add: updateRefreshDuration_def split: prod.splits)

lemma refreshAADToken_failure:
  "g (options tp) = Inl err \<Longrightarrow>
     refreshAADToken g tp c = (Some err, tp\<lparr>lastError := Some err\<rparr>, c)"
  by (simp add: refreshAADToken_def)

lemma refreshAADToken_success:
  assumes "g (options tp) = Inr accessToken"
  shows "\<exists>d c'. refreshAADToken g tp c =
           (None, tp\<lparr>lastError := None, token := Token accessToken, refreshDuration := d\<rparr>, c')"
proof -
  obtain d c' where
    "updateRefreshDuration accessToken (tp\<lparr>lastError := None, token := Token accessToken\<rparr>) c =
       (tp\<lparr>lastError := None, token := Token accessToken, refreshDuration := d\<rparr>, c')"
    using updateRefreshDuration_frame
      [of accessToken "tp\<lparr>lastError := None, token := Token accessToken\<rparr>" c]
    by auto
  then show ?thesis
    using assms by (auto simp add: refreshAADToken_def setToken_def time_Now_def)
qed


lemma provider_with_fields:
  "token (provider_with tok p) = tok"
  "lastError (provider_with tok p) = None"
  "userConfiguredDurationPercentage (provider_with tok p) = p"
  "refreshDuration (provider_with tok p) = 0"
  by (simp_all add: provider_with_def)

text \<open>
  Claim C10. A call of \<^verbatim>\<open>refreshAADToken\<close> whose request fails returns the provider with
  \<open>lastError\<close> set to the error and every other field as it was: the token, the refresh
  duration, the configured percentage, the options, the context and the credential client. The
  five-minute value is written to \<open>refreshDuration\<close> by the loop around the call.
\<close>

theorem refreshAADToken_failure_writes_lastError_only:
  assumes "g (options tp) = Inl err"
  shows "fst (snd (refreshAADToken g tp c)) = tp\<lparr>lastError := Some err\<rparr>
       \<and> lastError (fst (snd (refreshAADToken g tp c))) = Some err
       \<and> token (fst (snd (refreshAADToken g tp c))) = token tp
       \<and> refreshDuration (fst (snd (refreshAADToken g tp c))) = refreshDuration tp
       \<and> userConfiguredDurationPercentage (fst (snd (refreshAADToken g tp c)))
           = userConfiguredDurationPercentage tp
       \<and> options (fst (snd (refreshAADToken g tp c))) = options tp
       \<and> ctx (fst (snd (refreshAADToken g tp c))) = ctx tp
       \<and> credentialClient (fst (snd (refreshAADToken g tp c))) = credentialClient tp
       \<and> fst (snd (periodicallyRefreshClientToken (time_After g c # ws) tp))
           = tp\<lparr>lastError := Some err, refreshDuration := TIME_5_MINUTES\<rparr>"
  using assms by (simp add: refreshAADToken_failure)

text \<open>
  An instance: a provider that holds the token \<open>old\<close>, and a request that times out.
\<close>

theorem refreshAADToken_failure_writes_lastError_only_witness:
  "answer_error (Error ''timeout'') (options (provider_with ''old'' 80)) = Inl (Error ''timeout'')
   \<and> fst (snd (refreshAADToken (answer_error (Error ''timeout'')) (provider_with ''old'' 80)
                 (frozen 0)))
       = (provider_with ''old'' 80)\<lparr>lastError := Some (Error ''timeout'')\<rparr>
   \<and> refreshDuration
        (fst (snd (refreshAADToken (answer_error (Error ''timeout'')) (provider_with ''old'' 80)
                    (frozen 0)))) = 0
   \<and> refreshDuration
        (fst (snd (periodicallyRefreshClientToken
                     [time_After (answer_error (Error ''timeout'')) (frozen 0)]
                     (provider_with ''old'' 80))))
       = 300000000000"
proof -
  have h: "answer_error (Error ''timeout'') (options (provider_with ''old'' 80))
             = Inl (Error ''timeout'')"
    by (simp add: answer_error_def)
  show ?thesis
    using h refreshAADToken_failure_writes_lastError_only
      [of "answer_error (Error ''timeout'')" "provider_with ''old'' 80" "Error ''timeout''"
          "frozen 0" "[]"]
    by (simp add: provider_with_def TIME_5_MINUTES_def Minute_def Second_def Nanosecond_def)
qed

text \<open>
  Claim C5. After a refresh whose request failed with \<open>err\<close>, \<^verbatim>\<open>GetAccessToken\<close> returns the
  token held before the attempt together with \<open>err\<close>. The loop's assignment to
  \<open>refreshDuration\<close> changes neither. A further failed refresh keeps the token and replaces the
  error by the newer one; a further successful refresh returns the new token and clears the error.
\<close>

theorem GetAccessToken_after_failed_refresh:
  assumes "g (options tp) = Inl err"
  shows "GetAccessToken (fst (snd (refreshAADToken g tp c))) = (token tp, Some err)
       \<and> GetAccessToken ((fst (snd (refreshAADToken g tp c)))\<lparr>refreshDuration := d\<rparr>)
           = (token tp, Some err)
       \<and> (g1 (options tp) = Inl err1 \<longrightarrow>
            GetAccessToken (fst (snd (refreshAADToken g1 (fst (snd (refreshAADToken g tp c))) c1)))
              = (token tp, Some err1))
       \<and> (g2 (options tp) = Inr accessToken \<longrightarrow>
            GetAccessToken (fst (snd (refreshAADToken g2 (fst (snd (refreshAADToken g tp c))) c2)))
              = (Token accessToken, None))"
proof -
  have 1: "fst (snd (refreshAADToken g tp c)) = tp\<lparr>lastError := Some err\<rparr>"
    using assms by (simp add: refreshAADToken_failure)
  have 2: "GetAccessToken (fst (snd (refreshAADToken g1 (tp\<lparr>lastError := Some err\<rparr>) c1)))
             = (token tp, Some err1)"
    if "g1 (options tp) = Inl err1"
    using that by (simp add: refreshAADToken_failure GetAccessToken_def)
  have 3: "GetAccessToken (fst (snd (refreshAADToken g2 (tp\<lparr>lastError := Some err\<rparr>) c2)))
             = (Token accessToken, None)"
    if "g2 (options tp) = Inr accessToken"
    using refreshAADToken_success [of g2 "tp\<lparr>lastError := Some err\<rparr>" accessToken c2] that
    by (auto simp add: GetAccessToken_def)
  show ?thesis
    using 2 3 by (simp add: 1 GetAccessToken_def)
qed

text \<open>
  An instance: the token \<open>old\<close> is kept over two failed requests, and replaced by a successful one.
\<close>

theorem GetAccessToken_after_failed_refresh_witness:
  "answer_error (Error ''timeout'') (options (provider_with ''old'' 80)) = Inl (Error ''timeout'')
   \<and> answer_error (Error ''refused'') (options (provider_with ''old'' 80)) = Inl (Error ''refused'')
   \<and> answer_token \<lparr>Token = ''new'', ExpiresOn = 3600000000000\<rparr>
        (options (provider_with ''old'' 80)) = Inr \<lparr>Token = ''new'', ExpiresOn = 3600000000000\<rparr>
   \<and> GetAccessToken
        (fst (snd (refreshAADToken (answer_error (Error ''timeout'')) (provider_with ''old'' 80)
                    (frozen 0))))
       = (''old'', Some (Error ''timeout''))
   \<and> GetAccessToken
        (fst (snd (refreshAADToken (answer_error (Error ''refused''))
           (fst (snd (refreshAADToken (answer_error (Error ''timeout''))
                        (provider_with ''old'' 80) (frozen 0))))
           (frozen 0))))
       = (''old'', Some (Error ''refused''))
   \<and> GetAccessToken
        (fst (snd (refreshAADToken (answer_token \<lparr>Token = ''new'', ExpiresOn = 3600000000000\<rparr>)
           (fst (snd (refreshAADToken (answer_error (Error ''timeout''))
                        (provider_with ''old'' 80) (frozen 0))))
           (frozen 0))))
       = (''new'', None)"
proof -
  have h: "answer_error (Error ''timeout'') (options (provider_with ''old'' 80))
             = Inl (Error ''timeout'')"
    by (simp add: answer_error_def)
  have h1: "answer_error (Error ''refused'') (options (provider_with ''old'' 80))
             = Inl (Error ''refused'')"
    by (simp add: answer_error_def)
  have h2: "answer_token \<lparr>Token = ''new'', ExpiresOn = 3600000000000\<rparr>
              (options (provider_with ''old'' 80))
             = Inr \<lparr>Token = ''new'', ExpiresOn = 3600000000000\<rparr>"
    by (simp add: answer_token_def)
  have t: "token (provider_with ''old'' 80) = ''old''"
    by (simp add: provider_with_def)
  show ?thesis
    using h h1 h2 GetAccessToken_after_failed_refresh
      [of "answer_error (Error ''timeout'')" "provider_with ''old'' 80" "Error ''timeout''"
          "frozen 0" 0 "answer_error (Error ''refused'')" "Error ''refused''" "frozen 0"
          "answer_token \<lparr>Token = ''new'', ExpiresOn = 3600000000000\<rparr>"
          "\<lparr>Token = ''new'', ExpiresOn = 3600000000000\<rparr>" "frozen 0"]
    by (simp add: t)
qed

subsection \<open>Arithmetic of the calculator\<close>

lemma time_Now_frozen: "time_Now (frozen now) = (now, frozen now)"
  by (simp add: time_Now_def frozen_def)

text \<open>The four readings of the clock, in the order in which the code takes them.\<close>

lemma getRefreshDuration_readings:
  "fst (getRefreshDuration accessToken tp c) =
     (let candidate =
            c 0 + Duration_quo
                    (Duration_mul (uint (100 - userConfiguredDurationPercentage tp))
                       (Time_Sub (ExpiresOn accessToken) (c 1)))
                    100
      in if candidate < c 2 - 10 * Second then c 3 + TIME_1_MINUTES
         else if candidate < ExpiresOn accessToken then candidate
         else c 3 + TIME_1_MINUTES)"
  by (simp add: getRefreshDuration_def time_Now_def Time_Add_def Time_Before_def Let_def
      eval_nat_numeral)

text \<open>The same, with the four readings named.\<close>

lemma getRefreshDuration_at_readings:
  assumes "c 0 = now1" "c 1 = now2" "c 2 = now3" "c 3 = now4"
  shows "fst (getRefreshDuration accessToken tp c) =
     (let candidate =
            now1 + Duration_quo
                     (Duration_mul (uint (100 - userConfiguredDurationPercentage tp))
                        (Time_Sub (ExpiresOn accessToken) now2))
                     100
      in if candidate < now3 - 10 * Second then now4 + TIME_1_MINUTES
         else if candidate < ExpiresOn accessToken then candidate
         else now4 + TIME_1_MINUTES)"
  using assms getRefreshDuration_readings [of accessToken tp c] by (simp add: Let_def)

text \<open>With the clock standing at \<open>now\<close>.\<close>

lemma getRefreshDuration_frozen:
  "getRefreshDuration accessToken tp (frozen now) =
     (let candidate =
            now + Duration_quo
                    (Duration_mul (uint (100 - userConfiguredDurationPercentage tp))
                       (Time_Sub (ExpiresOn accessToken) now))
                    100
      in if candidate < now - 10 * Second then now + TIME_1_MINUTES
         else if candidate < ExpiresOn accessToken then candidate
         else now + TIME_1_MINUTES,
      frozen now)"
  by (simp add: getRefreshDuration_def time_Now_frozen Time_Add_def Time_Before_def Let_def)

lemma uint_100_minus:
  fixes p :: "8 word"
  assumes "p \<le> 100"
  shows "uint (100 - p) = 100 - uint p" and "0 \<le> uint p" and "uint p \<le> 100"
proof -
  have "uint p \<le> uint (100 :: 8 word)"
    using assms by (simp only: word_le_def)
  then show le: "uint p \<le> 100"
    by simp
  show "0 \<le> uint p"
    by simp
  show "uint (100 - p) = 100 - uint p"
    using assms by (simp add: uint_minus_simple_alt)
qed

lemma wrap_int64_id:
  assumes "- (2 ^ 63) \<le> x" and "x < 2 ^ 63"
  shows "wrap_int64 x = x"
proof -
  have "0 \<le> x + 2 ^ 63" and "x + 2 ^ 63 < 2 ^ 64"
    using assms by simp_all
  then have "(x + 2 ^ 63) mod 2 ^ 64 = x + 2 ^ 63"
    by (rule mod_pos_pos_trivial)
  then show ?thesis
    by (simp add: wrap_int64_def)
qed

lemma Duration_quo_100_nonneg: "0 \<le> a \<Longrightarrow> Duration_quo a 100 = a div 100"
  by (cases "a = 0") (simp_all add: Duration_quo_def)

lemma Duration_quo_100_nonpos: "a \<le> 0 \<Longrightarrow> Duration_quo a 100 = - ((- a) div 100)"
  by (cases "a = 0") (simp_all add: Duration_quo_def)

lemma Time_Sub_exact:
  "minDuration \<le> t - u \<Longrightarrow> t - u \<le> maxDuration \<Longrightarrow> Time_Sub t u = t - u"
  by (simp add: Time_Sub_def)

text \<open>
  Without overflow, the product is exact.
\<close>

lemma Duration_mul_exact:
  assumes "0 \<le> k" "k \<le> 100" "\<bar>d\<bar> \<le> 92233720368547758"
  shows "Duration_mul k d = k * d"
proof -
  have "\<bar>k * d\<bar> \<le> 100 * 92233720368547758"
    unfolding abs_mult using assms by (intro mult_mono) simp_all
  then have "- (2 ^ 63) \<le> k * d" "k * d < 2 ^ 63"
    by simp_all
  then show ?thesis
    unfolding Duration_mul_def by (rule wrap_int64_id)
qed

text \<open>
  For a lifetime of at most 92233720368547758 ns in either direction (\<open>2 ^ 63\<close> ns divided by
  100, about 2.9 years) and a percentage of at most 100, the calculator under a clock that stands
  still returns what the three branches of the specification give.
\<close>

lemma getRefreshDuration_exact:
  assumes "userConfiguredDurationPercentage tp \<le> 100"
    and "\<bar>ExpiresOn accessToken - now\<bar> \<le> 92233720368547758"
  shows "fst (getRefreshDuration accessToken tp (frozen now)) =
           nextRefresh now (ExpiresOn accessToken) (uint (userConfiguredDurationPercentage tp))"
proof -
  let ?p = "userConfiguredDurationPercentage tp"
  let ?d = "ExpiresOn accessToken - now"
  have k: "uint (100 - ?p) = 100 - uint ?p" "0 \<le> 100 - uint ?p" "100 - uint ?p \<le> 100"
    using uint_100_minus [OF assms(1)] by simp_all
  have s: "Time_Sub (ExpiresOn accessToken) now = ?d"
    using assms(2) by (intro Time_Sub_exact) (simp_all add: minDuration_def maxDuration_def)
  have m: "Duration_mul (100 - uint ?p) ?d = ?d * (100 - uint ?p)"
    using Duration_mul_exact [OF k(2) k(3) assms(2)] by (simp add: mult.commute)
  show ?thesis
    by (simp add: getRefreshDuration_frozen nextRefresh_def spec_candidate_def k(1) s m
        TIME_1_MINUTES_def Let_def)
qed

text \<open>
  The examples of section 8 of the specification, at \<open>now = 0\<close>: 100 minutes are 6000000000000 ns.
\<close>

lemma nextRefresh_100min_80: "nextRefresh 0 6000000000000 80 = 1200000000000"
  by (simp add: nextRefresh_def spec_candidate_def Duration_quo_def Second_def Nanosecond_def
      Minute_def)

lemma nextRefresh_100min_0: "nextRefresh 0 6000000000000 0 = 60000000000"
  by (simp add: nextRefresh_def spec_candidate_def Duration_quo_def Second_def Nanosecond_def
      Minute_def)

lemma nextRefresh_100min_100: "nextRefresh 0 6000000000000 100 = 0"
  by (simp add: nextRefresh_def spec_candidate_def Duration_quo_def Second_def Nanosecond_def
      Minute_def)

lemma nextRefresh_5s_50: "nextRefresh 0 5000000000 50 = 2500000000"
  by (simp add: nextRefresh_def spec_candidate_def Duration_quo_def Second_def Nanosecond_def
      Minute_def)

lemma getRefreshDuration_100min_80:
  "fst (getRefreshDuration \<lparr>Token = ''new'', ExpiresOn = 6000000000000\<rparr> (provider_with tok 80)
          (frozen 0)) = 1200000000000"
  using getRefreshDuration_exact
    [of "provider_with tok 80" "\<lparr>Token = ''new'', ExpiresOn = 6000000000000\<rparr>" 0]
  by (simp add: provider_with_def nextRefresh_100min_80)

lemma getRefreshDuration_100min_0:
  "fst (getRefreshDuration \<lparr>Token = ''new'', ExpiresOn = 6000000000000\<rparr> (provider_with tok 0)
          (frozen 0)) = 60000000000"
  using getRefreshDuration_exact
    [of "provider_with tok 0" "\<lparr>Token = ''new'', ExpiresOn = 6000000000000\<rparr>" 0]
  by (simp add: provider_with_def nextRefresh_100min_0)

lemma getRefreshDuration_100min_100:
  "fst (getRefreshDuration \<lparr>Token = ''new'', ExpiresOn = 6000000000000\<rparr> (provider_with tok 100)
          (frozen 0)) = 0"
  using getRefreshDuration_exact
    [of "provider_with tok 100" "\<lparr>Token = ''new'', ExpiresOn = 6000000000000\<rparr>" 0]
  by (simp add: provider_with_def nextRefresh_100min_100)

lemma getRefreshDuration_5s_50:
  "fst (getRefreshDuration \<lparr>Token = ''new'', ExpiresOn = 5000000000\<rparr> (provider_with tok 50)
          (frozen 0)) = 2500000000"
  using getRefreshDuration_exact
    [of "provider_with tok 50" "\<lparr>Token = ''new'', ExpiresOn = 5000000000\<rparr>" 0]
  by (simp add: provider_with_def nextRefresh_5s_50)

lemma spec_candidate_100min_100: "spec_candidate 0 6000000000000 100 = 0"
  by (simp add: spec_candidate_def Duration_quo_def)


text \<open>
  A lifetime of \<open>2 * 10 ^ 17\<close> ns (about 6.3 years) at the percentage 50: the product wraps.
\<close>

lemma getRefreshDuration_wraps:
  "fst (getRefreshDuration \<lparr>Token = ''new'', ExpiresOn = 200000000000000000\<rparr>
          (provider_with tok 50) (frozen 0)) = 60000000000"
proof -
  have 1: "uint (100 - 50 :: 8 word) = 50"
    by simp
  have 2: "Time_Sub 200000000000000000 0 = 200000000000000000"
    by (simp add: Time_Sub_def minDuration_def maxDuration_def)
  have 3: "Duration_mul 50 200000000000000000 = - 8446744073709551616"
    by (simp add: Duration_mul_def wrap_int64_def)
  have 4: "Duration_quo (- 8446744073709551616) 100 = - 84467440737095516"
    by (simp add: Duration_quo_def)
  show ?thesis
    by (simp add: getRefreshDuration_frozen provider_with_def 1 2 3 4 Second_def Nanosecond_def
        TIME_1_MINUTES_def Minute_def)
qed

lemma nextRefresh_no_wrap: "nextRefresh 0 200000000000000000 50 = 100000000000000000"
  by (simp add: nextRefresh_def spec_candidate_def Duration_quo_def Second_def Nanosecond_def
      Minute_def)

text \<open>
  A lifetime of 6148914691236517172 ns at the percentage 97: the product wraps to \<open>- 100\<close>, and the
  calculator returns a time before \<open>now\<close>.
\<close>

lemma getRefreshDuration_wraps_before_now:
  "fst (getRefreshDuration \<lparr>Token = ''new'', ExpiresOn = 6148914691236517172\<rparr>
          (provider_with tok 97) (frozen 0)) = - 1"
proof -
  have 1: "uint (100 - 97 :: 8 word) = 3"
    by simp
  have 2: "Time_Sub 6148914691236517172 0 = 6148914691236517172"
    by (simp add: Time_Sub_def minDuration_def maxDuration_def)
  have 3: "Duration_mul 3 6148914691236517172 = - 100"
    by (simp add: Duration_mul_def wrap_int64_def)
  have 4: "Duration_quo (- 100) 100 = - 1"
    by (simp add: Duration_quo_def)
  show ?thesis
    by (simp add: getRefreshDuration_frozen provider_with_def 1 2 3 4 Second_def Nanosecond_def
        TIME_1_MINUTES_def Minute_def)
qed

text \<open>
  Claim C1. The claim is that the calculator returns what the three branches of section 4.1 give,
  for every \<open>now\<close>, every expiry and every percentage up to 100. At \<open>now = 0\<close>, a token that
  expires \<open>2 * 10 ^ 17\<close> ns later and the percentage 50, the three branches give the candidate
  \<open>10 ^ 17\<close> ns. In the code the product of 50 and the remaining lifetime exceeds \<open>2 ^ 63\<close> and
  wraps to a negative \<^verbatim>\<open>Duration\<close>; the candidate lies before the threshold and the code
  returns \<open>now + 1 minute\<close>, 60000000000 ns.
\<close>

theorem getRefreshDuration_product_overflow:
  "userConfiguredDurationPercentage (provider_with ''old'' 50) \<le> 100
   \<and> fst (getRefreshDuration \<lparr>Token = ''new'', ExpiresOn = 200000000000000000\<rparr>
            (provider_with ''old'' 50) (frozen 0)) = 60000000000
   \<and> nextRefresh 0 200000000000000000 50 = 100000000000000000"
  by (simp add: getRefreshDuration_wraps nextRefresh_no_wrap provider_with_fields)

text \<open>
  Claim C2. The claim is that an expiry at most ten seconds after \<open>now\<close> gives
  \<open>now + 1 minute\<close> for every percentage, as the comment in \<^verbatim>\<open>getRefreshDuration\<close> says.
  At \<open>now = 0\<close>, a token that expires five seconds later and the percentage 50, the candidate is
  2.5 s after \<open>now\<close>: not before \<open>now - 10 s\<close> and before the expiry, so the code returns the
  candidate, 2500000000 ns, and not 60000000000 ns.
\<close>

theorem getRefreshDuration_expiry_within_ten_seconds:
  "ExpiresOn \<lparr>Token = ''new'', ExpiresOn = 5000000000\<rparr> - 0 \<le> 10 * Second
   \<and> userConfiguredDurationPercentage (provider_with ''old'' 50) \<le> 100
   \<and> fst (getRefreshDuration \<lparr>Token = ''new'', ExpiresOn = 5000000000\<rparr>
            (provider_with ''old'' 50) (frozen 0)) = 2500000000
   \<and> 0 + TIME_1_MINUTES = 60000000000"
  by (simp add: getRefreshDuration_5s_50 provider_with_fields Second_def Nanosecond_def
      TIME_1_MINUTES_def Minute_def)

lemma Duration_quo_100_ge:
  assumes "d \<le> 0" "0 \<le> k" "k \<le> 100"
  shows "d \<le> Duration_quo (k * d) 100"
proof -
  have "k * d \<le> 0"
    using assms by (simp add: mult_nonneg_nonpos)
  then have q: "Duration_quo (k * d) 100 = - ((- (k * d)) div 100)"
    by (rule Duration_quo_100_nonpos)
  have "- (k * d) \<le> 100 * (- d)"
    using assms by (simp add: mult_right_mono_neg)
  then have "(- (k * d)) div 100 \<le> (100 * (- d)) div 100"
    by (intro zdiv_mono1) simp_all
  then show ?thesis
    using q by simp
qed

text \<open>
  On a clock that stands still, a token that has expired (\<open>ExpiresOn \<le> now\<close>) gives
  \<open>now + 1 minute\<close> for every percentage of at most 100: the candidate is either more than ten
  seconds in the past or not before the expiry. This holds for every expiry, also where the
  remaining lifetime saturates or the product wraps.
\<close>

lemma getRefreshDuration_expired_token_still_clock:
  assumes "ExpiresOn accessToken \<le> now"
    and "userConfiguredDurationPercentage tp \<le> 100"
  shows "fst (getRefreshDuration accessToken tp (frozen now)) = now + TIME_1_MINUTES"
proof -
  let ?p = "userConfiguredDurationPercentage tp"
  let ?d = "ExpiresOn accessToken - now"
  let ?q = "Duration_quo (Duration_mul (uint (100 - ?p)) (Time_Sub (ExpiresOn accessToken) now)) 100"
  have k: "uint (100 - ?p) = 100 - uint ?p" "0 \<le> 100 - uint ?p" "100 - uint ?p \<le> 100"
    using uint_100_minus [OF assms(2)] by simp_all
  have "?d \<le> ?q" if "- 10 * Second \<le> ?q"
  proof (cases "?d \<le> - 10 * Second")
    case True
    with that show ?thesis by simp
  next
    case False
    then have small: "\<bar>?d\<bar> \<le> 92233720368547758"
      using assms(1) by (simp add: Second_def Nanosecond_def)
    then have s: "Time_Sub (ExpiresOn accessToken) now = ?d"
      by (intro Time_Sub_exact) (simp_all add: minDuration_def maxDuration_def)
    have m: "Duration_mul (100 - uint ?p) ?d = (100 - uint ?p) * ?d"
      using k(2) k(3) small by (rule Duration_mul_exact)
    show ?thesis
      unfolding k(1) s m using assms(1) k(2) k(3) by (intro Duration_quo_100_ge) simp_all
  qed
  then have "\<not> (\<not> now + ?q < now - 10 * Second \<and> now + ?q < ExpiresOn accessToken)"
    by auto
  then show ?thesis
    by (auto simp add: getRefreshDuration_frozen Let_def)
qed

text \<open>
  Claim C9. The claim is that an expired token gives \<open>now + 1 minute\<close> for every percentage up
  to 100, as the comment in \<^verbatim>\<open>getRefreshDuration\<close> says of an expired token. The code reads
  the clock once for the time it adds to and once more for the time it subtracts from the expiry.
  On a clock that advances by one nanosecond at each reading, from 1000, with a token that expired
  at 0 and the percentage 0, the candidate is \<open>1000 + (0 - 1001) = - 1\<close>. It is not more than ten
  seconds before the third reading and it is before the expiry, so the code returns the
  candidate: a time before the expiry, and not a reading of the clock plus one minute.
\<close>

theorem getRefreshDuration_expired_token_ticking_clock:
  "ExpiresOn \<lparr>Token = ''new'', ExpiresOn = 0\<rparr> \<le> ticking 1000 0
   \<and> userConfiguredDurationPercentage (provider_with ''old'' 0) \<le> 100
   \<and> fst (getRefreshDuration \<lparr>Token = ''new'', ExpiresOn = 0\<rparr> (provider_with ''old'' 0)
            (ticking 1000)) = - 1
   \<and> ticking 1000 0 + TIME_1_MINUTES = 60000001000
   \<and> ticking 1000 3 + TIME_1_MINUTES = 60000001003"
proof -
  have r: "ticking 1000 0 = 1000" "ticking 1000 1 = 1001" "ticking 1000 2 = 1002"
    "ticking 1000 3 = 1003"
    by (simp_all add: ticking_def)
  have 1: "uint (100 - 0 :: 8 word) = 100"
    by simp
  have 2: "Time_Sub 0 1001 = - 1001"
    by (simp add: Time_Sub_def minDuration_def maxDuration_def)
  have 3: "Duration_mul 100 (- 1001) = - 100100"
    by (simp add: Duration_mul_def wrap_int64_def)
  have 4: "Duration_quo (- 100100) 100 = - 1001"
    by (simp add: Duration_quo_def)
  have one: "TIME_1_MINUTES = 60000000000"
    by (simp add: TIME_1_MINUTES_def Minute_def Second_def Nanosecond_def)
  have "fst (getRefreshDuration \<lparr>Token = ''new'', ExpiresOn = 0\<rparr> (provider_with ''old'' 0)
            (ticking 1000)) = - 1"
    unfolding getRefreshDuration_at_readings [OF r]
    by (simp add: provider_with_fields 1 2 3 4 Second_def Nanosecond_def)
  then show ?thesis
    by (simp add: r provider_with_fields one)
qed

text \<open>
  Claim C3 as stated fails: with the percentage 100 the candidate is \<open>now\<close> itself, which is
  neither before \<open>now - 10 s\<close> nor at or after the expiry, and the calculator returns it. The
  returned time is not later than \<open>now\<close>.
\<close>

theorem getRefreshDuration_zero_delay_counterexample:
  "(0::int) < ExpiresOn \<lparr>Token = ''new'', ExpiresOn = 6000000000000\<rparr>
   \<and> userConfiguredDurationPercentage (provider_with ''old'' 100) \<le> 100
   \<and> \<not> spec_candidate 0 6000000000000 100 < 0 - 10 * Second
   \<and> \<not> 6000000000000 \<le> spec_candidate 0 6000000000000 100
   \<and> \<not> 0 < fst (getRefreshDuration \<lparr>Token = ''new'', ExpiresOn = 6000000000000\<rparr>
                  (provider_with ''old'' 100) (frozen 0))"
  by (simp add: getRefreshDuration_100min_100 spec_candidate_100min_100 provider_with_fields
      Second_def Nanosecond_def)

lemma div_100_eq_0: "0 \<le> (x::int) \<Longrightarrow> x div 100 = 0 \<longleftrightarrow> x < 100"
  by presburger

text \<open>
  The calculator on a token that has not expired, in terms of the four readings of the clock.
\<close>

lemma getRefreshDuration_unexpired_at_readings:
  assumes r: "c 0 = now1" "c 1 = now2" "c 2 = now3" "c 3 = now4"
    and "now2 < ExpiresOn accessToken"
    and "userConfiguredDurationPercentage tp \<le> 100"
    and "ExpiresOn accessToken - now2 \<le> 92233720368547758"
  shows "let candidate =
               now1 + Duration_quo
                        ((ExpiresOn accessToken - now2)
                           * (100 - uint (userConfiguredDurationPercentage tp)))
                        100;
             t = fst (getRefreshDuration accessToken tp c)
         in (candidate < now3 - 10 * Second \<or> ExpiresOn accessToken \<le> candidate
               \<longrightarrow> t = now4 + TIME_1_MINUTES)
          \<and> (\<not> (candidate < now3 - 10 * Second \<or> ExpiresOn accessToken \<le> candidate)
               \<longrightarrow> t = candidate \<and> now1 \<le> t
                   \<and> (t = now1 \<longleftrightarrow>
                        (ExpiresOn accessToken - now2)
                          * (100 - uint (userConfiguredDurationPercentage tp)) < 100))
          \<and> (now1 \<le> now4 \<longrightarrow> now1 \<le> t)"
proof -
  let ?p = "uint (userConfiguredDurationPercentage tp)"
  let ?d = "ExpiresOn accessToken - now2"
  let ?c = "now1 + Duration_quo (?d * (100 - ?p)) 100"
  let ?t = "fst (getRefreshDuration accessToken tp c)"
  have k: "uint (100 - userConfiguredDurationPercentage tp) = 100 - ?p"
    "0 \<le> 100 - ?p" "100 - ?p \<le> 100"
    using uint_100_minus [OF assms(6)] by simp_all
  have d: "0 < ?d" "\<bar>?d\<bar> \<le> 92233720368547758"
    using assms(5,7) by simp_all
  have s: "Time_Sub (ExpiresOn accessToken) now2 = ?d"
    using d(2) by (intro Time_Sub_exact) (simp_all add: minDuration_def maxDuration_def)
  have m: "Duration_mul (100 - ?p) ?d = ?d * (100 - ?p)"
    using Duration_mul_exact [OF k(2) k(3) d(2)] by (simp add: mult.commute)
  have t: "?t = (if ?c < now3 - 10 * Second then now4 + TIME_1_MINUTES
                 else if ?c < ExpiresOn accessToken then ?c
                 else now4 + TIME_1_MINUTES)"
    unfolding getRefreshDuration_at_readings [OF r] k(1) s m Let_def ..
  have prod: "0 \<le> ?d * (100 - ?p)"
    using d(1) k(2) by simp
  then have c: "?c = now1 + (?d * (100 - ?p)) div 100"
    by (simp add: Duration_quo_100_nonneg)
  have c0: "now1 \<le> ?c"
    using prod by (simp add: c pos_imp_zdiv_nonneg_iff)
  have z: "(?d * (100 - ?p)) div 100 = 0 \<longleftrightarrow> ?d * (100 - ?p) < 100"
    using prod by (rule div_100_eq_0)
  have m1: "0 < TIME_1_MINUTES"
    by (simp add: TIME_1_MINUTES_def Minute_def Second_def Nanosecond_def)
  have 1: "?t = now4 + TIME_1_MINUTES"
    if "?c < now3 - 10 * Second \<or> ExpiresOn accessToken \<le> ?c"
    using that by (auto simp add: t)
  have 2: "?t = ?c"
    if "\<not> (?c < now3 - 10 * Second \<or> ExpiresOn accessToken \<le> ?c)"
    using that by (auto simp add: t)
  have 3: "?c = now1 \<longleftrightarrow> ?d * (100 - ?p) < 100"
    using z by (simp add: c)
  have 4: "now1 \<le> ?t" if "now1 \<le> now4"
    using that c0 m1 by (simp add: t)
  show ?thesis
    unfolding Let_def using 1 2 3 4 c0 by metis
qed

text \<open>
  Claim C3, amended. Let \<open>c 0\<close>, \<open>c 1\<close>, \<open>c 2\<close>, \<open>c 3\<close> be the readings of the clock in the order
  in which the calculator takes them, for any clock. Let the expiry be later than \<open>c 1\<close>, the
  reading that is subtracted from it, by at most 92233720368547758 ns (where the 64-bit product
  cannot overflow), and the percentage at most 100. The candidate is \<open>c 0\<close> plus the lifetime
  times \<open>100 - percentage\<close> over 100. In the fallback cases (candidate before \<open>c 2 - 10 s\<close>, or
  at or after the expiry) the calculator returns exactly \<open>c 3 + 1 minute\<close>. Otherwise it returns
  the candidate, a time \<open>t\<close> with \<open>c 0 \<le> t\<close>; the delay is zero, \<open>t = c 0\<close>, exactly when the
  lifetime times \<open>100 - percentage\<close> is below 100 ns, as it is for the percentage 100. If the
  last reading is not before the first, \<open>c 0 \<le> t\<close> in every case.
\<close>

theorem getRefreshDuration_not_before_now:
  assumes "c 1 < ExpiresOn accessToken"
    and "userConfiguredDurationPercentage tp \<le> 100"
    and "ExpiresOn accessToken - c 1 \<le> 92233720368547758"
  shows "let candidate =
               c 0 + Duration_quo
                       ((ExpiresOn accessToken - c 1)
                          * (100 - uint (userConfiguredDurationPercentage tp)))
                       100;
             t = fst (getRefreshDuration accessToken tp c)
         in (candidate < c 2 - 10 * Second \<or> ExpiresOn accessToken \<le> candidate
               \<longrightarrow> t = c 3 + TIME_1_MINUTES)
          \<and> (\<not> (candidate < c 2 - 10 * Second \<or> ExpiresOn accessToken \<le> candidate)
               \<longrightarrow> t = candidate \<and> c 0 \<le> t
                   \<and> (t = c 0 \<longleftrightarrow>
                        (ExpiresOn accessToken - c 1)
                          * (100 - uint (userConfiguredDurationPercentage tp)) < 100))
          \<and> (c 0 \<le> c 3 \<longrightarrow> c 0 \<le> t)"
  using assms by (rule getRefreshDuration_unexpired_at_readings [OF refl refl refl refl])

text \<open>
  Four instances with an expiry at 6000000000000 ns (100 minutes). On a clock ticking from 0 the
  percentage 80 gives the candidate 1199999999999, and the percentage 0 the candidate
  5999999999999, one nanosecond before the expiry. On a clock standing at 0 the percentage 0 puts
  the candidate on the expiry and gives one minute. On a clock that jumps from 0 to 20 s after
  the second reading, the percentage 100 puts the candidate more than ten seconds before the third
  reading and gives one minute after the fourth.
\<close>

theorem getRefreshDuration_not_before_now_witness:
  "ticking 0 1 < ExpiresOn \<lparr>Token = ''new'', ExpiresOn = 6000000000000\<rparr>
   \<and> frozen 0 1 < ExpiresOn \<lparr>Token = ''new'', ExpiresOn = 6000000000000\<rparr>
   \<and> clock_of [0, 0] 20000000000 1 < ExpiresOn \<lparr>Token = ''new'', ExpiresOn = 6000000000000\<rparr>
   \<and> userConfiguredDurationPercentage (provider_with ''old'' 80) \<le> 100
   \<and> userConfiguredDurationPercentage (provider_with ''old'' 0) \<le> 100
   \<and> userConfiguredDurationPercentage (provider_with ''old'' 100) \<le> 100
   \<and> ExpiresOn \<lparr>Token = ''new'', ExpiresOn = 6000000000000\<rparr> - ticking 0 1
        \<le> 92233720368547758
   \<and> fst (getRefreshDuration \<lparr>Token = ''new'', ExpiresOn = 6000000000000\<rparr>
            (provider_with ''old'' 80) (ticking 0)) = 1199999999999
   \<and> fst (getRefreshDuration \<lparr>Token = ''new'', ExpiresOn = 6000000000000\<rparr>
            (provider_with ''old'' 0) (ticking 0)) = 5999999999999
   \<and> fst (getRefreshDuration \<lparr>Token = ''new'', ExpiresOn = 6000000000000\<rparr>
            (provider_with ''old'' 0) (frozen 0)) = 60000000000
   \<and> fst (getRefreshDuration \<lparr>Token = ''new'', ExpiresOn = 6000000000000\<rparr>
            (provider_with ''old'' 100) (clock_of [0, 0] 20000000000)) = 80000000000"
proof -
  let ?a = "\<lparr>Token = ''new'', ExpiresOn = 6000000000000\<rparr>"
  have h: "ticking 0 1 < ExpiresOn ?a" "ExpiresOn ?a - ticking 0 1 \<le> 92233720368547758"
    "frozen 0 1 < ExpiresOn ?a" "ExpiresOn ?a - frozen 0 1 \<le> 92233720368547758"
    "clock_of [0, 0] 20000000000 1 < ExpiresOn ?a"
    "ExpiresOn ?a - clock_of [0, 0] 20000000000 1 \<le> 92233720368547758"
    by (simp_all add: ticking_def frozen_def clock_of_def)
  have p: "userConfiguredDurationPercentage (provider_with ''old'' 80) \<le> 100"
    "userConfiguredDurationPercentage (provider_with ''old'' 0) \<le> 100"
    "userConfiguredDurationPercentage (provider_with ''old'' 100) \<le> 100"
    by (simp_all add: provider_with_fields)
  have q: "Duration_quo 119999999999980 100 = 1199999999999"
    "Duration_quo 599999999999900 100 = 5999999999999"
    "Duration_quo 600000000000000 100 = 6000000000000"
    "Duration_quo 0 100 = 0"
    by (simp_all add: Duration_quo_def)
  have one: "TIME_1_MINUTES = 60000000000" "10 * Second = 10000000000"
    by (simp_all add: TIME_1_MINUTES_def Minute_def Second_def Nanosecond_def)
  have a: "fst (getRefreshDuration ?a (provider_with ''old'' 80) (ticking 0)) = 1199999999999"
    using getRefreshDuration_not_before_now [where c = "ticking 0", OF h(1) p(1) h(2)]
    by (simp add: Let_def ticking_def provider_with_fields q one)
  have b: "fst (getRefreshDuration ?a (provider_with ''old'' 0) (ticking 0)) = 5999999999999"
    using getRefreshDuration_not_before_now [where c = "ticking 0", OF h(1) p(2) h(2)]
    by (simp add: Let_def ticking_def provider_with_fields q one)
  have c: "fst (getRefreshDuration ?a (provider_with ''old'' 0) (frozen 0)) = 60000000000"
    using getRefreshDuration_not_before_now [where c = "frozen 0", OF h(3) p(2) h(4)]
    by (simp add: Let_def frozen_def provider_with_fields q one)
  have d: "fst (getRefreshDuration ?a (provider_with ''old'' 100) (clock_of [0, 0] 20000000000))
             = 80000000000"
    using getRefreshDuration_not_before_now [where c = "clock_of [0, 0] 20000000000", OF h(5) p(3) h(6)]
    by (simp add: Let_def clock_of_def provider_with_fields q one)
  show ?thesis
    using h(1,2,3,5) p a b c d by simp
qed

subsection \<open>After a successful refresh\<close>

lemma refreshAADToken_frozen:
  assumes "g (options tp) = Inr accessToken"
  shows "refreshAADToken g tp (frozen now) =
           (None,
            tp\<lparr>lastError := None, token := Token accessToken,
               refreshDuration :=
                 Time_Sub (fst (getRefreshDuration accessToken
                                  (tp\<lparr>lastError := None, token := Token accessToken\<rparr>)
                                  (frozen now))) now\<rparr>,
            frozen now)"
  using assms
  by (simp add: refreshAADToken_def setToken_def updateRefreshDuration_def
      getRefreshDuration_frozen time_Now_frozen)

lemma NewTokenProvider_nil:
  "config = None \<or> logger = None \<Longrightarrow>
     NewTokenProvider audience config logger cred g c =
       (Inl (errors_New ''NewTokenProvider: Required arguments canot be nil''), False)"
  by (simp add: NewTokenProvider_def)

lemma NewTokenProvider_no_credential:
  "config = Some cfg \<Longrightarrow> logger = Some lg \<Longrightarrow> cred = Inl err \<Longrightarrow>
     NewTokenProvider audience config logger cred g c = (Inl err, False)"
  by (simp add: NewTokenProvider_def)

lemma NewTokenProvider_no_token:
  "config = Some cfg \<Longrightarrow> logger = Some lg \<Longrightarrow> cred = Inr cc \<Longrightarrow>
   g \<lparr>Scopes = [audience]\<rparr> = Inl err \<Longrightarrow>
     NewTokenProvider audience config logger cred g c =
       (Inl (errors_New (''Failed to get access token: '' @ Error_text err)), False)"
  by (simp add: NewTokenProvider_def refreshAADToken_failure)

lemma NewTokenProvider_token:
  assumes "config = Some cfg" "logger = Some lg" "cred = Inr cc"
    and "g \<lparr>Scopes = [audience]\<rparr> = Inr accessToken"
  shows "\<exists>d. NewTokenProvider audience config logger cred g c =
           (Inr \<lparr>token = Token accessToken, ctx = Background, lastError = None,
                 userConfiguredDurationPercentage = GetAadTokenRefreshDurationInPercentage cfg,
                 refreshDuration = d, credentialClient = cc,
                 options = \<lparr>Scopes = [audience]\<rparr>\<rparr>, True)"
proof -
  let ?tp0 = "\<lparr>token = [], ctx = Background, lastError = None,
               userConfiguredDurationPercentage = GetAadTokenRefreshDurationInPercentage cfg,
               refreshDuration = 0, credentialClient = cc,
               options = \<lparr>Scopes = [audience]\<rparr>\<rparr>"
  have "g (options ?tp0) = Inr accessToken"
    using assms(4) by simp
  then obtain d c' where
    "refreshAADToken g ?tp0 c =
       (None, ?tp0\<lparr>lastError := None, token := Token accessToken, refreshDuration := d\<rparr>, c')"
    using refreshAADToken_success [of g ?tp0 accessToken c] by blast
  then show ?thesis
    using assms(1-3) by (simp add: NewTokenProvider_def)
qed

text \<open>
  Claim C6. After a refresh whose request succeeded, \<^verbatim>\<open>refreshAADToken\<close> returns \<^verbatim>\<open>nil\<close> and
  \<^verbatim>\<open>GetAccessToken\<close> returns the token of the answer and no error. The same holds for the
  provider that \<^verbatim>\<open>NewTokenProvider\<close> returns after its first, synchronous refresh.
\<close>

theorem GetAccessToken_after_successful_refresh:
  "(g (options tp) = Inr accessToken \<longrightarrow>
      fst (refreshAADToken g tp c) = None
      \<and> GetAccessToken (fst (snd (refreshAADToken g tp c))) = (Token accessToken, None))
   \<and> (config = Some cfg \<and> logger = Some lg \<and> cred = Inr cc
        \<and> g1 \<lparr>Scopes = [audience]\<rparr> = Inr accessToken1 \<longrightarrow>
        (\<exists>tp1. NewTokenProvider audience config logger cred g1 c1 = (Inr tp1, True)
           \<and> GetAccessToken tp1 = (Token accessToken1, None)))"
proof (intro conjI impI)
  assume a: "g (options tp) = Inr accessToken"
  show "fst (refreshAADToken g tp c) = None"
    using refreshAADToken_success [of g tp accessToken c] a by auto
  show "GetAccessToken (fst (snd (refreshAADToken g tp c))) = (Token accessToken, None)"
    using refreshAADToken_success [of g tp accessToken c] a by (auto simp add: GetAccessToken_def)
next
  assume b: "config = Some cfg \<and> logger = Some lg \<and> cred = Inr cc
        \<and> g1 \<lparr>Scopes = [audience]\<rparr> = Inr accessToken1"
  then show "\<exists>tp1. NewTokenProvider audience config logger cred g1 c1 = (Inr tp1, True)
           \<and> GetAccessToken tp1 = (Token accessToken1, None)"
    using NewTokenProvider_token [of config cfg logger lg cred cc g1 audience accessToken1 c1]
    by (auto simp add: GetAccessToken_def)
qed

text \<open>
  An instance of each part.
\<close>

theorem GetAccessToken_after_successful_refresh_witness:
  "answer_token \<lparr>Token = ''new'', ExpiresOn = 6000000000000\<rparr> (options (provider_with ''old'' 80))
     = Inr \<lparr>Token = ''new'', ExpiresOn = 6000000000000\<rparr>
   \<and> answer_token \<lparr>Token = ''first'', ExpiresOn = 6000000000000\<rparr>
        \<lparr>Scopes = [''https://monitor.azure.com/.default'']\<rparr>
     = Inr \<lparr>Token = ''first'', ExpiresOn = 6000000000000\<rparr>
   \<and> fst (refreshAADToken (answer_token \<lparr>Token = ''new'', ExpiresOn = 6000000000000\<rparr>)
             (provider_with ''old'' 80) (frozen 0)) = None
   \<and> GetAccessToken
        (fst (snd (refreshAADToken (answer_token \<lparr>Token = ''new'', ExpiresOn = 6000000000000\<rparr>)
                     (provider_with ''old'' 80) (frozen 0))))
       = (''new'', None)
   \<and> (\<exists>tp1. NewTokenProvider ''https://monitor.azure.com/.default''
                (Some \<lparr>GetAadTokenRefreshDurationInPercentage = 80\<rparr>) (Some Logger)
                (Inr DefaultAzureCredential)
                (answer_token \<lparr>Token = ''first'', ExpiresOn = 6000000000000\<rparr>) (frozen 0)
              = (Inr tp1, True)
            \<and> GetAccessToken tp1 = (''first'', None))"
proof -
  have h: "answer_token \<lparr>Token = ''new'', ExpiresOn = 6000000000000\<rparr>
             (options (provider_with ''old'' 80))
           = Inr \<lparr>Token = ''new'', ExpiresOn = 6000000000000\<rparr>"
    by (simp add: answer_token_def)
  have h1: "answer_token \<lparr>Token = ''first'', ExpiresOn = 6000000000000\<rparr>
              \<lparr>Scopes = [''https://monitor.azure.com/.default'']\<rparr>
            = Inr \<lparr>Token = ''first'', ExpiresOn = 6000000000000\<rparr>"
    by (simp add: answer_token_def)
  show ?thesis
    using h h1 GetAccessToken_after_successful_refresh
      [of "answer_token \<lparr>Token = ''new'', ExpiresOn = 6000000000000\<rparr>"
          "provider_with ''old'' 80" "\<lparr>Token = ''new'', ExpiresOn = 6000000000000\<rparr>" "frozen 0"
          "Some \<lparr>GetAadTokenRefreshDurationInPercentage = 80\<rparr>"
          "\<lparr>GetAadTokenRefreshDurationInPercentage = 80\<rparr>"
          "Some Logger" Logger "Inr DefaultAzureCredential" DefaultAzureCredential
          "answer_token \<lparr>Token = ''first'', ExpiresOn = 6000000000000\<rparr>"
          "''https://monitor.azure.com/.default''"
          "\<lparr>Token = ''first'', ExpiresOn = 6000000000000\<rparr>" "frozen 0"]
    by simp
qed

subsection \<open>The loop stops at the first failure\<close>

lemma periodicallyRefreshClientToken_failure:
  "g (options tp) = Inl err \<Longrightarrow>
     periodicallyRefreshClientToken (time_After g c # ws) tp =
       (Returned (Some (errors_New (''Failed to refresh token: '' @ Error_text err))),
        tp\<lparr>lastError := Some err, refreshDuration := TIME_5_MINUTES\<rparr>, 1)"
  by (simp add: refreshAADToken_failure)

lemma periodicallyRefreshClientToken_append:
  "periodicallyRefreshClientToken before tp = (Waiting, tp1, n) \<Longrightarrow>
     periodicallyRefreshClientToken (before @ ws) tp =
       (case periodicallyRefreshClientToken ws tp1 of (r, tp2, m) \<Rightarrow> (r, tp2, n + m))"
proof (induction before arbitrary: tp n)
  case Nil
  then show ?case by (simp split: prod.splits)
next
  case (Cons w before)
  show ?case
  proof (cases w)
    case ctx_Done
    then show ?thesis using Cons.prems by simp
  next
    case (time_After g c)
    show ?thesis
    proof (cases "refreshAADToken g tp c")
      case (fields r tpa ca)
      show ?thesis
      proof (cases r)
        case None
        obtain r' tp' n' where rest: "periodicallyRefreshClientToken before tpa = (r', tp', n')"
          by (cases "periodicallyRefreshClientToken before tpa") auto
        with Cons.prems time_After fields None have "r' = Waiting" "tp' = tp1" "n = Suc n'"
          by auto
        with rest have "periodicallyRefreshClientToken (before @ ws) tpa =
            (case periodicallyRefreshClientToken ws tp1 of (r, tp2, m) \<Rightarrow> (r, tp2, n' + m))"
          using Cons.IH [of tpa n'] by simp
        then show ?thesis
          using time_After fields None \<open>n = Suc n'\<close> by (simp split: prod.splits)
      next
        case (Some err)
        then show ?thesis using Cons.prems time_After fields by simp
      qed
    qed
  qed
qed

text \<open>
  Claim C4. Let the loop have made \<open>n\<close> successful refreshes on the wake-ups \<open>before\<close>, with the
  provider now \<open>tp1\<close>, and let the request at the next timer wake-up fail with \<open>err\<close>. Then the
  loop returns an error, with \<open>lastError = err\<close> and \<open>refreshDuration\<close> five minutes stored, after
  \<open>n + 1\<close> refreshes in all. The wake-ups \<open>later\<close> play no part: no refresh follows. The provider
  is left with the token of \<open>tp1\<close> and the error, which is what \<^verbatim>\<open>GetAccessToken\<close> returns.
\<close>

theorem periodicallyRefreshClientToken_stops_on_failure:
  assumes "periodicallyRefreshClientToken before tp = (Waiting, tp1, n)"
    and "g (options tp1) = Inl err"
  shows "periodicallyRefreshClientToken (before @ time_After g c # later) tp =
           (Returned (Some (errors_New (''Failed to refresh token: '' @ Error_text err))),
            tp1\<lparr>lastError := Some err, refreshDuration := TIME_5_MINUTES\<rparr>, Suc n)
       \<and> periodicallyRefreshClientToken (before @ time_After g c # later) tp =
           periodicallyRefreshClientToken (before @ [time_After g c]) tp
       \<and> GetAccessToken (fst (snd (periodicallyRefreshClientToken (before @ time_After g c # later) tp)))
           = (token tp1, Some err)"
proof -
  have run: "periodicallyRefreshClientToken (before @ time_After g c # ws) tp =
           (Returned (Some (errors_New (''Failed to refresh token: '' @ Error_text err))),
            tp1\<lparr>lastError := Some err, refreshDuration := TIME_5_MINUTES\<rparr>, Suc n)" for ws
  proof -
    have "periodicallyRefreshClientToken (time_After g c # ws) tp1 =
           (Returned (Some (errors_New (''Failed to refresh token: '' @ Error_text err))),
            tp1\<lparr>lastError := Some err, refreshDuration := TIME_5_MINUTES\<rparr>, 1)"
      using assms(2) by (rule periodicallyRefreshClientToken_failure)
    then show ?thesis
      unfolding periodicallyRefreshClientToken_append [OF assms(1)] by simp
  qed
  show ?thesis
    unfolding run by (simp add: GetAccessToken_def)
qed

lemma periodicallyRefreshClientToken_one_success:
  "periodicallyRefreshClientToken
     [time_After (answer_token \<lparr>Token = ''new'', ExpiresOn = 6000000000000\<rparr>) (frozen 0)]
     (provider_with ''old'' 80)
   = (Waiting,
      (provider_with ''old'' 80)\<lparr>lastError := None, token := ''new'',
                                 refreshDuration := 1200000000000\<rparr>,
      1)"
proof -
  let ?a = "\<lparr>Token = ''new'', ExpiresOn = 6000000000000\<rparr>"
  have g: "answer_token ?a (options (provider_with ''old'' 80)) = Inr ?a"
    by (simp add: answer_token_def)
  have p: "userConfiguredDurationPercentage (provider_with ''old'' 80) = 80"
    by (simp add: provider_with_def)
  have s: "Time_Sub 1200000000000 0 = 1200000000000"
    by (simp add: Time_Sub_def minDuration_def maxDuration_def)
  have "refreshAADToken (answer_token ?a) (provider_with ''old'' 80) (frozen 0) =
          (None,
           (provider_with ''old'' 80)\<lparr>lastError := None, token := ''new'',
                                      refreshDuration := 1200000000000\<rparr>,
           frozen 0)"
    using refreshAADToken_frozen [of "answer_token ?a" "provider_with ''old'' 80" ?a 0] g
    by (simp add: getRefreshDuration_exact p nextRefresh_100min_80 s)
  then show ?thesis
    by simp
qed

text \<open>
  An instance: one successful refresh, a request that times out, and a later timer whose request
  would succeed. The loop makes two refreshes and returns; the token \<open>new\<close> of the first stays.
\<close>

theorem periodicallyRefreshClientToken_stops_on_failure_witness:
  "periodicallyRefreshClientToken
     [time_After (answer_token \<lparr>Token = ''new'', ExpiresOn = 6000000000000\<rparr>) (frozen 0)]
     (provider_with ''old'' 80)
   = (Waiting,
      (provider_with ''old'' 80)\<lparr>lastError := None, token := ''new'',
                                 refreshDuration := 1200000000000\<rparr>,
      1)
   \<and> answer_error (Error ''timeout'')
        (options ((provider_with ''old'' 80)\<lparr>lastError := None, token := ''new'',
                                            refreshDuration := 1200000000000\<rparr>))
     = Inl (Error ''timeout'')
   \<and> periodicallyRefreshClientToken
       [time_After (answer_token \<lparr>Token = ''new'', ExpiresOn = 6000000000000\<rparr>) (frozen 0),
        time_After (answer_error (Error ''timeout'')) (frozen 1200000000000),
        time_After (answer_token \<lparr>Token = ''newer'', ExpiresOn = 9000000000000\<rparr>)
          (frozen 1500000000000)]
       (provider_with ''old'' 80)
     = (Returned (Some (Error ''Failed to refresh token: timeout'')),
        (provider_with ''old'' 80)\<lparr>lastError := Some (Error ''timeout''), token := ''new'',
                                   refreshDuration := 300000000000\<rparr>,
        2)
   \<and> GetAccessToken (fst (snd (periodicallyRefreshClientToken
       [time_After (answer_token \<lparr>Token = ''new'', ExpiresOn = 6000000000000\<rparr>) (frozen 0),
        time_After (answer_error (Error ''timeout'')) (frozen 1200000000000),
        time_After (answer_token \<lparr>Token = ''newer'', ExpiresOn = 9000000000000\<rparr>)
          (frozen 1500000000000)]
       (provider_with ''old'' 80))))
     = (''new'', Some (Error ''timeout''))"
proof -
  let ?tp1 = "(provider_with ''old'' 80)\<lparr>lastError := None, token := ''new'',
                                          refreshDuration := 1200000000000\<rparr>"
  have h: "answer_error (Error ''timeout'') (options ?tp1) = Inl (Error ''timeout'')"
    by (simp add: answer_error_def)
  have five: "TIME_5_MINUTES = 300000000000"
    by (simp add: TIME_5_MINUTES_def Minute_def Second_def Nanosecond_def)
  note r = periodicallyRefreshClientToken_stops_on_failure
        [where before = "[time_After (answer_token \<lparr>Token = ''new'', ExpiresOn = 6000000000000\<rparr>)
                            (frozen 0)]"
           and tp = "provider_with ''old'' 80" and ?tp1.0 = ?tp1 and n = 1
           and g = "answer_error (Error ''timeout'')" and err = "Error ''timeout''"
           and c = "frozen 1200000000000"
           and later = "[time_After (answer_token \<lparr>Token = ''newer'', ExpiresOn = 9000000000000\<rparr>)
                           (frozen 1500000000000)]",
         OF periodicallyRefreshClientToken_one_success h]
  show ?thesis
    using periodicallyRefreshClientToken_one_success h r
    by (simp del: periodicallyRefreshClientToken.simps add: five errors_New_def GetAccessToken_def)
qed

subsection \<open>Construction\<close>

text \<open>
  Claim C7 as stated fails for the audience: \<^verbatim>\<open>NewTokenProvider\<close> does not look at it. With the
  empty string as audience, and configuration, logger, credential and first request in order, it
  returns a provider whose only scope is the empty string, and starts the background loop.
\<close>

theorem NewTokenProvider_empty_audience_counterexample:
  "NewTokenProvider [] (Some \<lparr>GetAadTokenRefreshDurationInPercentage = 80\<rparr>) (Some Logger)
     (Inr DefaultAzureCredential)
     (answer_token \<lparr>Token = ''first'', ExpiresOn = 6000000000000\<rparr>) (frozen 0)
   = (Inr \<lparr>token = ''first'', ctx = Background, lastError = None,
           userConfiguredDurationPercentage = 80, refreshDuration = 1200000000000,
           credentialClient = DefaultAzureCredential, options = \<lparr>Scopes = [[]]\<rparr>\<rparr>,
      True)"
proof -
  let ?tp0 = "\<lparr>token = [], ctx = Background, lastError = None,
               userConfiguredDurationPercentage = 80,
               refreshDuration = 0, credentialClient = DefaultAzureCredential,
               options = \<lparr>Scopes = [[]]\<rparr>\<rparr>"
  let ?a = "\<lparr>Token = ''first'', ExpiresOn = 6000000000000\<rparr>"
  have g: "answer_token ?a (options ?tp0) = Inr ?a"
    by (simp add: answer_token_def)
  have s: "Time_Sub 1200000000000 0 = 1200000000000"
    by (simp add: Time_Sub_def minDuration_def maxDuration_def)
  have "refreshAADToken (answer_token ?a) ?tp0 (frozen 0) =
          (None, ?tp0\<lparr>lastError := None, token := Token ?a, refreshDuration := 1200000000000\<rparr>,
           frozen 0)"
    using refreshAADToken_frozen [of "answer_token ?a" ?tp0 ?a 0] g
    by (simp add: getRefreshDuration_exact nextRefresh_100min_80 s)
  then show ?thesis
    by (simp add: NewTokenProvider_def)
qed

text \<open>
  Claim C7, amended. \<^verbatim>\<open>NewTokenProvider\<close> returns an error and no provider, and does not start
  the background loop, when the configuration or the logger is \<^verbatim>\<open>nil\<close> (with the error ``Required
  arguments canot be nil''), when the credential cannot be created (with that error), and when
  the first request fails (with ``Failed to get access token: '' and the text of that error).
  In every other case, whatever the audience, it returns a provider and starts the loop.
\<close>

theorem NewTokenProvider_failures:
  "(config = None \<or> logger = None \<longrightarrow>
      NewTokenProvider audience config logger cred g c =
        (Inl (errors_New ''NewTokenProvider: Required arguments canot be nil''), False))
   \<and> (config = Some cfg \<and> logger = Some lg \<and> cred = Inl err \<longrightarrow>
        NewTokenProvider audience config logger cred g c = (Inl err, False))
   \<and> (config = Some cfg \<and> logger = Some lg \<and> cred = Inr cc
        \<and> g \<lparr>Scopes = [audience]\<rparr> = Inl err1 \<longrightarrow>
        NewTokenProvider audience config logger cred g c =
          (Inl (errors_New (''Failed to get access token: '' @ Error_text err1)), False))
   \<and> (config = Some cfg \<and> logger = Some lg \<and> cred = Inr cc
        \<and> g \<lparr>Scopes = [audience]\<rparr> = Inr accessToken \<longrightarrow>
        (\<exists>tp. NewTokenProvider audience config logger cred g c = (Inr tp, True)))"
proof (intro conjI impI)
  assume "config = None \<or> logger = None"
  then show "NewTokenProvider audience config logger cred g c =
        (Inl (errors_New ''NewTokenProvider: Required arguments canot be nil''), False)"
    by (rule NewTokenProvider_nil)
next
  assume "config = Some cfg \<and> logger = Some lg \<and> cred = Inl err"
  then show "NewTokenProvider audience config logger cred g c = (Inl err, False)"
    by (simp add: NewTokenProvider_no_credential)
next
  assume "config = Some cfg \<and> logger = Some lg \<and> cred = Inr cc
        \<and> g \<lparr>Scopes = [audience]\<rparr> = Inl err1"
  then show "NewTokenProvider audience config logger cred g c =
          (Inl (errors_New (''Failed to get access token: '' @ Error_text err1)), False)"
    by (simp add: NewTokenProvider_no_token)
next
  assume "config = Some cfg \<and> logger = Some lg \<and> cred = Inr cc
        \<and> g \<lparr>Scopes = [audience]\<rparr> = Inr accessToken"
  then show "\<exists>tp. NewTokenProvider audience config logger cred g c = (Inr tp, True)"
    using NewTokenProvider_token [of config cfg logger lg cred cc g audience accessToken c]
    by auto
qed

text \<open>
  An instance of each of the four cases.
\<close>

theorem NewTokenProvider_failures_witness:
  "NewTokenProvider ''https://monitor.azure.com/.default'' None (Some Logger)
       (Inr DefaultAzureCredential)
       (answer_token \<lparr>Token = ''first'', ExpiresOn = 6000000000000\<rparr>) (frozen 0)
     = (Inl (Error ''NewTokenProvider: Required arguments canot be nil''), False)
   \<and> NewTokenProvider ''https://monitor.azure.com/.default''
       (Some \<lparr>GetAadTokenRefreshDurationInPercentage = 80\<rparr>) (Some Logger)
       (Inl (Error ''no credential''))
       (answer_token \<lparr>Token = ''first'', ExpiresOn = 6000000000000\<rparr>) (frozen 0)
     = (Inl (Error ''no credential''), False)
   \<and> NewTokenProvider ''https://monitor.azure.com/.default''
       (Some \<lparr>GetAadTokenRefreshDurationInPercentage = 80\<rparr>) (Some Logger)
       (Inr DefaultAzureCredential) (answer_error (Error ''timeout'')) (frozen 0)
     = (Inl (Error ''Failed to get access token: timeout''), False)
   \<and> (\<exists>tp. NewTokenProvider ''https://monitor.azure.com/.default''
       (Some \<lparr>GetAadTokenRefreshDurationInPercentage = 80\<rparr>) (Some Logger)
       (Inr DefaultAzureCredential)
       (answer_token \<lparr>Token = ''first'', ExpiresOn = 6000000000000\<rparr>) (frozen 0)
     = (Inr tp, True))"
proof -
  let ?aud = "''https://monitor.azure.com/.default''"
  let ?cfg = "\<lparr>GetAadTokenRefreshDurationInPercentage = 80\<rparr>"
  let ?a = "\<lparr>Token = ''first'', ExpiresOn = 6000000000000\<rparr>"
  have 1: "NewTokenProvider ?aud None (Some Logger) (Inr DefaultAzureCredential)
             (answer_token ?a) (frozen 0)
           = (Inl (Error ''NewTokenProvider: Required arguments canot be nil''), False)"
    using NewTokenProvider_failures [where config = None and logger = "Some Logger" and audience = ?aud
        and cred = "Inr DefaultAzureCredential" and g = "answer_token ?a" and c = "frozen 0"]
    by (simp add: errors_New_def)
  have 2: "NewTokenProvider ?aud (Some ?cfg) (Some Logger) (Inl (Error ''no credential''))
             (answer_token ?a) (frozen 0)
           = (Inl (Error ''no credential''), False)"
    using NewTokenProvider_failures [where config = "Some ?cfg" and cfg = ?cfg and logger = "Some Logger" and lg = Logger
        and audience = ?aud and cred = "Inl (Error ''no credential'')"
        and err = "Error ''no credential''" and g = "answer_token ?a" and c = "frozen 0"]
    by simp
  have 3: "NewTokenProvider ?aud (Some ?cfg) (Some Logger) (Inr DefaultAzureCredential)
             (answer_error (Error ''timeout'')) (frozen 0)
           = (Inl (Error ''Failed to get access token: timeout''), False)"
    using NewTokenProvider_failures [where config = "Some ?cfg" and cfg = ?cfg and logger = "Some Logger" and lg = Logger
        and audience = ?aud and cred = "Inr DefaultAzureCredential" and cc = DefaultAzureCredential
        and ?err1.0 = "Error ''timeout''" and g = "answer_error (Error ''timeout'')" and c = "frozen 0"]
    by (simp add: errors_New_def answer_error_def)
  have 4: "\<exists>tp. NewTokenProvider ?aud (Some ?cfg) (Some Logger) (Inr DefaultAzureCredential)
             (answer_token ?a) (frozen 0) = (Inr tp, True)"
    using NewTokenProvider_failures [where config = "Some ?cfg" and cfg = ?cfg and logger = "Some Logger" and lg = Logger
        and audience = ?aud and cred = "Inr DefaultAzureCredential" and cc = DefaultAzureCredential
        and accessToken = ?a and g = "answer_token ?a" and c = "frozen 0"]
    by (simp add: answer_token_def)
  show ?thesis
    using 1 2 3 4 by blast
qed

end
